theory Spec2Isabelle
  imports Main "HOL-Library.Sublist"
begin

section \<open>Python values\<close>

text \<open>
  The script \<^verbatim>\<open>src/main.py\<close> collects bibliographic records from four providers
  into the global list \<^verbatim>\<open>results\<close>, removes duplicates and writes a CSV file.
  Python text is modelled as \<^typ>\<open>string\<close>, a list of 8-bit characters: the model is
  exact on ASCII text, and characters outside ASCII are carried through unchanged
  (\<^verbatim>\<open>str.lower\<close>, \<^verbatim>\<open>str.strip\<close> and \<^verbatim>\<open>repr\<close> are the ASCII ones).
  Values whose Python type is not fixed by the code (what \<^verbatim>\<open>r.json()\<close> and the
  Medline parser return, and the record fields that pass them on) are values of
  \<open>pyval\<close>; a dict is an association list read with \<^const>\<open>map_of\<close>, its keys
  are text. Python floats are not modelled.
\<close>

datatype pyval =
    PNone
  | PBool bool
  | PInt int
  | PStr string
  | PList "pyval list"
  | PDict "(string \<times> pyval) list"

text \<open>The exceptions the script can meet; none of them is caught anywhere in it.\<close>

datatype py_error =
    AttributeError
  | TypeError
  | KeyError
  | IndexError
  | ParseError
  | JSONDecodeError
  | ConnectionError
  | HTTPError int

definition bnd :: "py_error + 'a \<Rightarrow> ('a \<Rightarrow> py_error + 'b) \<Rightarrow> py_error + 'b" where
  "bnd m f = (case m of Inl e \<Rightarrow> Inl e | Inr x \<Rightarrow> f x)"

text \<open>A list comprehension whose element expression can raise: the first error wins.\<close>

fun mapE :: "('a \<Rightarrow> py_error + 'b) \<Rightarrow> 'a list \<Rightarrow> py_error + 'b list" where
  "mapE f [] = Inr []"
| "mapE f (x # xs) =
     (case f x of
        Inl e \<Rightarrow> Inl e
      | Inr y \<Rightarrow> (case mapE f xs of Inl e \<Rightarrow> Inl e | Inr ys \<Rightarrow> Inr (y # ys)))"

subsection \<open>Text: \<^verbatim>\<open>lower\<close>, \<^verbatim>\<open>strip\<close>, \<^verbatim>\<open>split\<close>, \<^verbatim>\<open>join\<close>, \<^verbatim>\<open>str\<close>\<close>

definition lower_char :: "char \<Rightarrow> char" where
  "lower_char c =
     (case map_of (zip ''ABCDEFGHIJKLMNOPQRSTUVWXYZ'' ''abcdefghijklmnopqrstuvwxyz'') c of
        Some d \<Rightarrow> d
      | None \<Rightarrow> c)"

definition lower :: "string \<Rightarrow> string" where
  "lower s = map lower_char s"

text \<open>
  The ASCII characters \<^verbatim>\<open>str.strip()\<close> removes: tab, line feed, vertical tab, form
  feed, carriage return, the four separators 0x1C to 0x1F, and the space.
\<close>

definition is_space :: "char \<Rightarrow> bool" where
  "is_space c \<longleftrightarrow>
     c \<in> set [CHR 0x09, CHR 0x0A, CHR 0x0B, CHR 0x0C, CHR 0x0D,
               CHR 0x1C, CHR 0x1D, CHR 0x1E, CHR 0x1F, CHR 0x20]"

definition strip :: "string \<Rightarrow> string" where
  "strip s = rev (dropWhile is_space (rev (dropWhile is_space s)))"

text \<open>\<^verbatim>\<open>s.split(sep)[0]\<close> for a separator of one character: the text before its first occurrence.\<close>

definition split0 :: "char \<Rightarrow> string \<Rightarrow> string" where
  "split0 sep s = takeWhile (\<lambda>c. c \<noteq> sep) s"

fun join :: "string \<Rightarrow> string list \<Rightarrow> string" where
  "join sep [] = []"
| "join sep [x] = x"
| "join sep (x # y # ys) = x @ sep @ join sep (y # ys)"

definition digit_char :: "nat \<Rightarrow> char" where
  "digit_char n = ''0123456789abcdef'' ! n"

fun str_nat :: "nat \<Rightarrow> string" where
  "str_nat n = (if n < 10 then [digit_char n] else str_nat (n div 10) @ [digit_char (n mod 10)])"

declare str_nat.simps [simp del]

definition str_int :: "int \<Rightarrow> string" where
  "str_int i = (if i < 0 then CHR ''-'' # str_nat (nat (- i)) else str_nat (nat i))"

text \<open>
  \<^verbatim>\<open>repr\<close> of text: single quotes unless the text has a single quote and no double
  quote; the quote and the backslash are escaped, tab, line feed and carriage return
  are written \<^verbatim>\<open>\t\<close>, \<^verbatim>\<open>\n\<close>, \<^verbatim>\<open>\r\<close>, other control characters \<^verbatim>\<open>\xhh\<close>.
\<close>

definition repr_char :: "char \<Rightarrow> char \<Rightarrow> string" where
  "repr_char q c =
     (if c = q \<or> c = CHR 0x5C then [CHR 0x5C, c]
      else if c = CHR 0x09 then [CHR 0x5C, CHR ''t'']
      else if c = CHR 0x0A then [CHR 0x5C, CHR ''n'']
      else if c = CHR 0x0D then [CHR 0x5C, CHR ''r'']
      else if (of_char c :: nat) < 32 \<or> (of_char c :: nat) = 127
        then [CHR 0x5C, CHR ''x'', digit_char (of_char c div 16), digit_char (of_char c mod 16)]
      else [c])"

definition repr_str :: "string \<Rightarrow> string" where
  "repr_str s =
     (let q = (if CHR 0x27 \<in> set s \<and> CHR 0x22 \<notin> set s then CHR 0x22 else CHR 0x27)
      in q # concat (map (repr_char q) s) @ [q])"

fun py_repr :: "pyval \<Rightarrow> string" where
  "py_repr PNone = ''None''"
| "py_repr (PBool b) = (if b then ''True'' else ''False'')"
| "py_repr (PInt i) = str_int i"
| "py_repr (PStr s) = repr_str s"
| "py_repr (PList xs) = ''['' @ join '', '' (map py_repr xs) @ '']''"
| "py_repr (PDict kvs) =
     ''{'' @ join '', '' (map (\<lambda>kv. repr_str (fst kv) @ '': '' @ py_repr (snd kv)) kvs) @ ''}''"

text \<open>\<^verbatim>\<open>str(x)\<close>, which is also what an f-string writes for \<^verbatim>\<open>{x}\<close>.\<close>

definition py_str :: "pyval \<Rightarrow> string" where
  "py_str v = (case v of PStr s \<Rightarrow> s | _ \<Rightarrow> py_repr v)"

subsection \<open>Operations on values of unknown type\<close>

text \<open>\<^verbatim>\<open>d.get(k, default)\<close>: only a dict has the method.\<close>

definition py_get :: "pyval \<Rightarrow> string \<Rightarrow> pyval \<Rightarrow> py_error + pyval" where
  "py_get d k dflt =
     (case d of
        PDict kvs \<Rightarrow> Inr (case map_of kvs k of Some v \<Rightarrow> v | None \<Rightarrow> dflt)
      | _ \<Rightarrow> Inl AttributeError)"

text \<open>\<^verbatim>\<open>x[0]\<close>: the first element of a list or of a text; a dict has no key \<^verbatim>\<open>0\<close>.\<close>

definition py_index0 :: "pyval \<Rightarrow> py_error + pyval" where
  "py_index0 x =
     (case x of
        PList [] \<Rightarrow> Inl IndexError
      | PList (v # vs) \<Rightarrow> Inr v
      | PStr [] \<Rightarrow> Inl IndexError
      | PStr (c # cs) \<Rightarrow> Inr (PStr [c])
      | PDict kvs \<Rightarrow> Inl KeyError
      | _ \<Rightarrow> Inl TypeError)"

text \<open>\<^verbatim>\<open>x[k]\<close> for a text key \<^verbatim>\<open>k\<close>.\<close>

definition py_getitem :: "pyval \<Rightarrow> string \<Rightarrow> py_error + pyval" where
  "py_getitem x k =
     (case x of
        PDict kvs \<Rightarrow> (case map_of kvs k of Some v \<Rightarrow> Inr v | None \<Rightarrow> Inl KeyError)
      | _ \<Rightarrow> Inl TypeError)"

text \<open>\<^verbatim>\<open>k in x\<close> for a text \<^verbatim>\<open>k\<close>: a key of a dict, an element of a list, a part of a text.\<close>

definition py_in :: "string \<Rightarrow> pyval \<Rightarrow> py_error + bool" where
  "py_in k x =
     (case x of
        PDict kvs \<Rightarrow> Inr (k \<in> set (map fst kvs))
      | PList vs \<Rightarrow> Inr (PStr k \<in> set vs)
      | PStr s \<Rightarrow> Inr (sublist k s)
      | _ \<Rightarrow> Inl TypeError)"

text \<open>\<^verbatim>\<open>for v in x\<close>: the elements of a list, the keys of a dict, the characters of a text.\<close>

definition py_iter :: "pyval \<Rightarrow> py_error + pyval list" where
  "py_iter x =
     (case x of
        PList vs \<Rightarrow> Inr vs
      | PDict kvs \<Rightarrow> Inr (map (\<lambda>kv. PStr (fst kv)) kvs)
      | PStr s \<Rightarrow> Inr (map (\<lambda>c. PStr [c]) s)
      | _ \<Rightarrow> Inl TypeError)"

text \<open>\<^verbatim>\<open>not x\<close> is the negation of this.\<close>

definition py_truthy :: "pyval \<Rightarrow> bool" where
  "py_truthy x =
     (case x of
        PNone \<Rightarrow> False
      | PBool b \<Rightarrow> b
      | PInt i \<Rightarrow> i \<noteq> 0
      | PStr s \<Rightarrow> s \<noteq> []
      | PList vs \<Rightarrow> vs \<noteq> []
      | PDict kvs \<Rightarrow> kvs \<noteq> [])"

definition py_strip :: "pyval \<Rightarrow> py_error + string" where
  "py_strip x = (case x of PStr s \<Rightarrow> Inr (strip s) | _ \<Rightarrow> Inl AttributeError)"

definition py_split0 :: "char \<Rightarrow> pyval \<Rightarrow> py_error + string" where
  "py_split0 sep x = (case x of PStr s \<Rightarrow> Inr (split0 sep s) | _ \<Rightarrow> Inl AttributeError)"

text \<open>\<^verbatim>\<open>sep.join(xs)\<close> for a Python list: every element must be text.\<close>

definition join_strs :: "string \<Rightarrow> pyval list \<Rightarrow> py_error + string" where
  "join_strs sep vs =
     bnd (mapE (\<lambda>v. case v of PStr s \<Rightarrow> Inr s | _ \<Rightarrow> Inl TypeError) vs) (\<lambda>ss. Inr (join sep ss))"

text \<open>\<^verbatim>\<open>sep.join(x)\<close> for any value: it is iterated first.\<close>

definition py_join :: "string \<Rightarrow> pyval \<Rightarrow> py_error + string" where
  "py_join sep x = bnd (py_iter x) (join_strs sep)"

section \<open>Records, the run's state and the outside world\<close>

text \<open>
  One element of \<^verbatim>\<open>results\<close>: a dict with the seven keys every adapter writes.
  \<open>Source\<close> is a literal, \<open>Title\<close> the result of \<^verbatim>\<open>.strip()\<close>, \<open>Authors\<close>
  the result of \<^verbatim>\<open>"; ".join(...)\<close> and \<open>Year\<close> the result of \<^verbatim>\<open>split(...)[0]\<close>
  or \<^verbatim>\<open>str(...)\<close>, hence always text; the other three fields hold whatever the
  provider's value was, \<^verbatim>\<open>None\<close> included.
\<close>

record rec =
  Source :: string
  Title :: string
  Authors :: string
  Year :: string
  Abstract :: pyval
  DOI :: pyval
  URL :: pyval

text \<open>An HTTP request as \<^verbatim>\<open>requests.get(url, params=params)\<close> receives it.\<close>

record request =
  url :: string
  params :: "(string \<times> pyval) list"

text \<open>
  A response: its status, and what \<^verbatim>\<open>ET.fromstring(r.content)\<close> and \<^verbatim>\<open>r.json()\<close>
  make of its body (each may raise).
\<close>

datatype xml = Element (etag: string) (etext: "string option") (echildren: "xml list")

record response =
  status_code :: int
  content_xml :: "py_error + xml"
  json :: "py_error + pyval"

text \<open>
  The outside world: \<^verbatim>\<open>Entrez.read(Entrez.esearch(db="pubmed", term, retmax))\<close>,
  \<^verbatim>\<open>list(Medline.parse(Entrez.efetch(db="pubmed", id, ...)))\<close> and \<^verbatim>\<open>requests.get\<close>.
  Each call may raise instead of returning.
\<close>

record env =
  esearch :: "string \<Rightarrow> int \<Rightarrow> py_error + pyval"
  efetch :: "string \<Rightarrow> py_error + pyval list"
  requests_get :: "request \<Rightarrow> py_error + response"

text \<open>
  What the adapters change: the global list \<^verbatim>\<open>results\<close>, the lines printed, and
  the requests handed to \<^verbatim>\<open>requests.get\<close> so far.
\<close>

record state =
  results :: "rec list"
  stdout :: "string list"
  sent :: "request list"

text \<open>An adapter returns, or an exception leaves it; either way the state stays changed.\<close>

datatype outcome = Done state | Raised py_error state


definition QUERY :: string where
  "QUERY = ''(\"digital twin\" OR \"virtual patient\" OR \"in silico patient\" OR \"surrogate model\" OR \"physics-informed neural network\") AND (multiscale OR multiphysics OR hybrid modeling OR \"precision medicine\" OR workflow OR \"model validation\" OR \"uncertainty quantification\")''"

definition MAX_RESULTS :: int where
  "MAX_RESULTS = 100000"

text \<open>
  \<^verbatim>\<open>for x in xs: results.append({...})\<close>: the records of the elements before the one
  that raises are already in \<^verbatim>\<open>results\<close>.
\<close>

fun append_all :: "('a \<Rightarrow> py_error + rec) \<Rightarrow> 'a list \<Rightarrow> state \<Rightarrow> outcome" where
  "append_all f [] st = Done st"
| "append_all f (x # xs) st =
     (case f x of
        Inl e \<Rightarrow> Raised e st
      | Inr r \<Rightarrow> append_all f xs (st\<lparr>results := results st @ [r]\<rparr>))"

section \<open>PubMed (lines 33 to 50)\<close>

definition pubmed_record :: "pyval \<Rightarrow> py_error + rec" where
  "pubmed_record rec =
     bnd (bnd (py_get rec ''TI'' (PStr '''')) py_strip) (\<lambda>title.
     bnd (bnd (py_get rec ''AU'' (PList [])) (py_join ''; '')) (\<lambda>authors.
     bnd (bnd (py_get rec ''DP'' (PStr '''')) (py_split0 CHR '' '')) (\<lambda>year.
     bnd (py_get rec ''AB'' (PStr '''')) (\<lambda>abstract.
     bnd (py_get rec ''LID'' (PStr '''')) (\<lambda>lid.
     bnd (py_get rec ''PMID'' (PStr '''')) (\<lambda>pmid.
     Inr \<lparr>Source = ''PubMed'', Title = title, Authors = authors, Year = year,
          Abstract = abstract, DOI = lid,
          URL = PStr (''https://pubmed.ncbi.nlm.nih.gov/'' @ py_str pmid @ ''/'')\<rparr>))))))"

definition search_pubmed :: "env \<Rightarrow> state \<Rightarrow> outcome" where
  "search_pubmed w st =
     (case esearch w QUERY MAX_RESULTS of
        Inl e \<Rightarrow> Raised e st
      | Inr record \<Rightarrow>
     (case bnd (py_getitem record ''IdList'') (py_join '','') of
        Inl e \<Rightarrow> Raised e st
      | Inr ids \<Rightarrow>
     (case efetch w ids of
        Inl e \<Rightarrow> Raised e st
      | Inr records \<Rightarrow> append_all pubmed_record records st)))"

section \<open>arXiv (lines 53 to 77)\<close>

definition atom :: "string \<Rightarrow> string" where
  "atom name = ''{http://www.w3.org/2005/Atom}'' @ name"

definition findall :: "xml \<Rightarrow> string \<Rightarrow> xml list" where
  "findall e t = filter (\<lambda>c. etag c = t) (echildren e)"

definition find_elem :: "xml \<Rightarrow> string \<Rightarrow> xml option" where
  "find_elem e t = List.find (\<lambda>c. etag c = t) (echildren e)"

text \<open>
  \<^verbatim>\<open>e.find(t, ns).text\<close>: \<^verbatim>\<open>find\<close> gives \<^verbatim>\<open>None\<close> when no child has the tag, and
  \<^verbatim>\<open>None\<close> has no attribute \<^verbatim>\<open>text\<close>; the text of an element without text is
  \<^verbatim>\<open>None\<close>.
\<close>

definition find_text :: "xml \<Rightarrow> string \<Rightarrow> py_error + pyval" where
  "find_text e t =
     (case find_elem e t of
        None \<Rightarrow> Inl AttributeError
      | Some c \<Rightarrow> Inr (case etext c of None \<Rightarrow> PNone | Some s \<Rightarrow> PStr s))"

definition arxiv_record :: "xml \<Rightarrow> py_error + rec" where
  "arxiv_record entry =
     bnd (bnd (find_text entry (atom ''title'')) py_strip) (\<lambda>title.
     bnd (bnd (mapE (\<lambda>a. find_text a (atom ''name'')) (findall entry (atom ''author'')))
            (join_strs ''; '')) (\<lambda>authors.
     bnd (bnd (find_text entry (atom ''published'')) (py_split0 CHR ''-'')) (\<lambda>year.
     bnd (find_text entry (atom ''summary'')) (\<lambda>abstract.
     bnd (find_text entry (atom ''id'')) (\<lambda>link.
     Inr \<lparr>Source = ''arXiv'', Title = title, Authors = authors, Year = year,
          Abstract = abstract, DOI = PStr '''', URL = link\<rparr>)))))"

definition arxiv_request :: "int \<Rightarrow> request" where
  "arxiv_request start =
     \<lparr>url = ''http://export.arxiv.org/api/query'' @ ''?search_query=all:'' @ QUERY
            @ ''&start='' @ str_int start @ ''&max_results='' @ str_int 200,
      params = []\<rparr>"

text \<open>
  The \<^verbatim>\<open>while retrieved < MAX_RESULTS\<close> loop, with its variables \<^verbatim>\<open>start\<close> and
  \<^verbatim>\<open>retrieved\<close>. The status of the response is never read.
\<close>

partial_function (option) arxiv_loop :: "env \<Rightarrow> int \<Rightarrow> int \<Rightarrow> state \<Rightarrow> outcome option" where
  "arxiv_loop w start retrieved st =
     (if retrieved < MAX_RESULTS then
        (let st1 = st\<lparr>sent := sent st @ [arxiv_request start]\<rparr> in
         case requests_get w (arxiv_request start) of
           Inl e \<Rightarrow> Some (Raised e st1)
         | Inr r \<Rightarrow>
        (case content_xml r of
           Inl e \<Rightarrow> Some (Raised e st1)
         | Inr feed \<Rightarrow>
        (let entries = findall feed (atom ''entry'') in
         if entries = [] then Some (Done st1)
         else
           (case append_all arxiv_record entries st1 of
              Raised e st2 \<Rightarrow> Some (Raised e st2)
            | Done st2 \<Rightarrow> arxiv_loop w (start + 200) (retrieved + int (length entries)) st2))))
      else Some (Done st))"

definition search_arxiv :: "env \<Rightarrow> state \<Rightarrow> outcome option" where
  "search_arxiv w st = arxiv_loop w 0 0 st"

section \<open>CrossRef (lines 84 to 115)\<close>

definition crossref_request :: request where
  "crossref_request =
     \<lparr>url = ''https://api.crossref.org/works'',
      params = [(''query'', PStr QUERY), (''rows'', PInt 50)]\<rparr>"

text \<open>The body of \<^verbatim>\<open>for a in item.get("author", [])\<close>: one display name.\<close>

definition crossref_author :: "pyval \<Rightarrow> py_error + string" where
  "crossref_author a =
     bnd (py_in ''given'' a) (\<lambda>has_given.
     bnd (if has_given then bnd (py_getitem a ''given'') (\<lambda>g. Inr [g]) else Inr []) (\<lambda>name_parts.
     bnd (py_in ''family'' a) (\<lambda>has_family.
     bnd (if has_family then bnd (py_getitem a ''family'') (\<lambda>f. Inr (name_parts @ [f]))
          else Inr name_parts) (\<lambda>name_parts.
     join_strs '' '' name_parts))))"

definition crossref_record :: "pyval \<Rightarrow> py_error + rec" where
  "crossref_record item =
     bnd (bnd (py_get item ''title'' (PList [PStr ''''])) py_index0) (\<lambda>title.
     bnd (bnd (bnd (py_get item ''author'' (PList [])) py_iter) (mapE crossref_author)) (\<lambda>authors.
     bnd (py_strip title) (\<lambda>title'.
     bnd (bnd (bnd (bnd (py_get item ''issued'' (PDict []))
            (\<lambda>issued. py_get issued ''date-parts'' (PList [PList [PNone]]))) py_index0) py_index0)
       (\<lambda>year.
     bnd (py_get item ''DOI'' (PStr '''')) (\<lambda>doi.
     bnd (py_get item ''URL'' (PStr '''')) (\<lambda>link.
     Inr \<lparr>Source = ''CrossRef'', Title = title', Authors = join ''; '' authors,
          Year = py_str year, Abstract = PStr '''', DOI = doi, URL = link\<rparr>))))))"

definition search_crossref :: "env \<Rightarrow> state \<Rightarrow> outcome" where
  "search_crossref w st =
     (let st1 = st\<lparr>sent := sent st @ [crossref_request]\<rparr> in
      case requests_get w crossref_request of
        Inl e \<Rightarrow> Raised e st1
      | Inr r \<Rightarrow>
          if status_code r \<noteq> 200 then
            Done (st1\<lparr>stdout := stdout st1 @
              [''[CrossRef] Failed request (status '' @ str_int (status_code r) @ '')'']\<rparr>)
          else
            (case bnd (bnd (bnd (json r) (\<lambda>data. py_get data ''message'' (PDict [])))
                    (\<lambda>message. py_get message ''items'' (PList []))) py_iter of
               Inl e \<Rightarrow> Raised e st1
             | Inr items \<Rightarrow> append_all crossref_record items st1))"

section \<open>Europe PMC (lines 118 to 150)\<close>

definition epmc_request :: "int \<Rightarrow> request" where
  "epmc_request page =
     \<lparr>url = ''https://www.ebi.ac.uk/europepmc/webservices/rest/search'',
      params = [(''query'', PStr QUERY), (''format'', PStr ''json''),
                (''pageSize'', PInt 100), (''page'', PInt page)]\<rparr>"

definition epmc_record :: "pyval \<Rightarrow> py_error + rec" where
  "epmc_record hit =
     bnd (bnd (py_get hit ''title'' (PStr '''')) py_strip) (\<lambda>title.
     bnd (bnd (bnd (bnd (bnd (py_get hit ''authorList'' (PDict []))
            (\<lambda>al. py_get al ''author'' (PList []))) py_iter)
            (mapE (\<lambda>a. py_get a ''fullName'' (PStr '''')))) (join_strs ''; '')) (\<lambda>authors.
     bnd (py_get hit ''pubYear'' (PStr '''')) (\<lambda>year.
     bnd (py_get hit ''abstractText'' (PStr '''')) (\<lambda>abstract.
     bnd (py_get hit ''doi'' (PStr '''')) (\<lambda>doi.
     bnd (py_get hit ''source'' (PStr '''')) (\<lambda>src.
     bnd (py_get hit ''id'' (PStr '''')) (\<lambda>ident.
     Inr \<lparr>Source = ''Europe PMC'', Title = title, Authors = authors, Year = py_str year,
          Abstract = abstract, DOI = doi,
          URL = PStr (''https://europepmc.org/article/'' @ py_str src @ ''/'' @ py_str ident)\<rparr>)))))))"

text \<open>\<^verbatim>\<open>data = r.json()\<close> and \<^verbatim>\<open>hit_list = data.get("resultList", {}).get("result", [])\<close>.\<close>

definition epmc_hit_list :: "response \<Rightarrow> py_error + pyval" where
  "epmc_hit_list r =
     bnd (bnd (json r) (\<lambda>data. py_get data ''resultList'' (PDict [])))
       (\<lambda>rl. py_get rl ''result'' (PList []))"

text \<open>
  The \<^verbatim>\<open>while retrieved < MAX_RESULTS\<close> loop, with its variables \<^verbatim>\<open>page\<close> and
  \<^verbatim>\<open>retrieved\<close>. A hit list that is true and can be iterated is a list, a dict or a
  text, and \<^verbatim>\<open>len\<close> of it is the number of elements the \<^verbatim>\<open>for\<close> loop has seen.
\<close>

partial_function (option) epmc_loop :: "env \<Rightarrow> int \<Rightarrow> int \<Rightarrow> state \<Rightarrow> outcome option" where
  "epmc_loop w page retrieved st =
     (if retrieved < MAX_RESULTS then
        (let st1 = st\<lparr>sent := sent st @ [epmc_request page]\<rparr> in
         case requests_get w (epmc_request page) of
           Inl e \<Rightarrow> Some (Raised e st1)
         | Inr r \<Rightarrow>
             if status_code r \<noteq> 200 then
               Some (Done (st1\<lparr>stdout := stdout st1 @
                 [''[Europe PMC] Failed request (status '' @ str_int (status_code r) @ '')'']\<rparr>))
             else
               (case epmc_hit_list r of
                  Inl e \<Rightarrow> Some (Raised e st1)
                | Inr hit_list \<Rightarrow>
                    if \<not> py_truthy hit_list then Some (Done st1)
                    else
                      (case py_iter hit_list of
                         Inl e \<Rightarrow> Some (Raised e st1)
                       | Inr hits \<Rightarrow>
                      (case append_all epmc_record hits st1 of
                         Raised e st2 \<Rightarrow> Some (Raised e st2)
                       | Done st2 \<Rightarrow>
                           epmc_loop w (page + 1) (retrieved + int (length hits)) st2))))
      else Some (Done st))"

definition search_europe_pmc :: "env \<Rightarrow> state \<Rightarrow> outcome option" where
  "search_europe_pmc w st = epmc_loop w 1 0 st"

section \<open>Running the four searches (lines 153 to 156)\<close>

text \<open>
  The four calls follow each other at module level with no \<^verbatim>\<open>try\<close> around them: an
  exception that leaves one of them ends the script.
\<close>

definition run_searches :: "env \<Rightarrow> state \<Rightarrow> outcome option" where
  "run_searches w st =
     (case search_pubmed w st of
        Raised e st1 \<Rightarrow> Some (Raised e st1)
      | Done st1 \<Rightarrow>
     (case search_arxiv w st1 of
        None \<Rightarrow> None
      | Some (Raised e st2) \<Rightarrow> Some (Raised e st2)
      | Some (Done st2) \<Rightarrow>
     (case search_crossref w st2 of
        Raised e st3 \<Rightarrow> Some (Raised e st3)
      | Done st3 \<Rightarrow> search_europe_pmc w st3)))"

section \<open>Removing duplicates (lines 166 to 172)\<close>

text \<open>
  \<^verbatim>\<open>
  seen = set()
  unique_results = []
  for r in results:
      key = (r["Title"].lower(), r["Year"])
      if key not in seen:
          seen.add(key)
          unique_results.append(r)
  \<close>
  The loop state is the pair of \<^verbatim>\<open>seen\<close> and \<^verbatim>\<open>unique_results\<close>.
\<close>

definition dedup_key :: "rec \<Rightarrow> string \<times> string" where
  "dedup_key r = (lower (Title r), Year r)"

definition dedup_step :: "rec \<Rightarrow> (string \<times> string) set \<times> rec list \<Rightarrow> (string \<times> string) set \<times> rec list" where
  "dedup_step r st =
     (let key = dedup_key r in
      if key \<notin> fst st then (insert key (fst st), snd st @ [r]) else st)"

definition dedup :: "rec list \<Rightarrow> rec list" where
  "dedup rs = snd (fold dedup_step rs ({}, []))"


text \<open>
  The specification's words for the output: the records at the positions of the input
  that no earlier position shares its key with, in input order.
\<close>

definition first_occurrences :: "rec list \<Rightarrow> rec list" where
  "first_occurrences rs =
     map (\<lambda>i. rs ! i)
       (filter (\<lambda>i. \<forall>j \<in> {0..<i}. dedup_key (rs ! j) \<noteq> dedup_key (rs ! i)) [0..<length rs])"

text \<open>The same scan written as a recursion over the input, for the proofs.\<close>

fun firsts :: "(string \<times> string) set \<Rightarrow> rec list \<Rightarrow> rec list" where
  "firsts S [] = []"
| "firsts S (r # rs) =
     (if dedup_key r \<in> S then firsts S rs else r # firsts (insert (dedup_key r) S) rs)"

section \<open>Writing the CSV file (lines 182 to 187)\<close>







text \<open>The lines of a file, as a reader counts them: one for each line feed.\<close>

definition line_count :: "string \<Rightarrow> nat" where
  "line_count s = length (filter (\<lambda>c. c = CHR 0x0A) s)"

section \<open>Observations on a run\<close>







text \<open>
  The specification's words for the year field: text representing a 4-digit year, or
  the empty string.
\<close>

definition is_digit :: "char \<Rightarrow> bool" where
  "is_digit c \<longleftrightarrow> c \<in> set ''0123456789''"

definition is_year4 :: "string \<Rightarrow> bool" where
  "is_year4 s \<longleftrightarrow> length s = 4 \<and> list_all is_digit s"

definition year_ok :: "string \<Rightarrow> bool" where
  "year_ok s \<longleftrightarrow> s = [] \<or> is_year4 s"

section \<open>Example inputs\<close>

definition mk_rec :: "string \<Rightarrow> string \<Rightarrow> string \<Rightarrow> rec" where
  "mk_rec src title year =
     \<lparr>Source = src, Title = title, Authors = [], Year = year,
      Abstract = PStr [], DOI = PStr [], URL = PStr []\<rparr>"

definition state0 :: state where
  "state0 = \<lparr>results = [], stdout = [], sent = []\<rparr>"

text \<open>An arXiv entry with every element the adapter reads, and the record made of it.\<close>

definition entry1 :: xml where
  "entry1 =
     Element (atom ''entry'') None
       [Element (atom ''id'') (Some ''http://arxiv.org/abs/2101.00001v1'') [],
        Element (atom ''published'') (Some ''2021-01-01T00:00:00Z'') [],
        Element (atom ''title'') (Some '' Digital Twins '') [],
        Element (atom ''summary'') (Some ''We study twins.'') [],
        Element (atom ''author'') None [Element (atom ''name'') (Some ''A. Author'') []],
        Element (atom ''author'') None [Element (atom ''name'') (Some ''B. Writer'') []]]"

definition record1 :: rec where
  "record1 =
     \<lparr>Source = ''arXiv'', Title = ''Digital Twins'', Authors = ''A. Author; B. Writer'',
      Year = ''2021'', Abstract = PStr ''We study twins.'', DOI = PStr [],
      URL = PStr ''http://arxiv.org/abs/2101.00001v1''\<rparr>"

definition xml_response :: "int \<Rightarrow> xml list \<Rightarrow> response" where
  "xml_response status entries =
     \<lparr>status_code = status,
      content_xml = Inr (Element (atom ''feed'') None entries),
      json = Inl JSONDecodeError\<rparr>"

definition json_response :: "int \<Rightarrow> pyval \<Rightarrow> response" where
  "json_response status data =
     \<lparr>status_code = status, content_xml = Inl ParseError, json = Inr data\<rparr>"





text \<open>A Europe PMC hit, the record made of it, and a world whose pages hold copies of it.\<close>

definition hit1 :: pyval where
  "hit1 =
     PDict [(''id'', PStr ''PMC1''), (''source'', PStr ''PMC''),
            (''title'', PStr ''Virtual Patients''), (''pubYear'', PStr ''2020''),
            (''authorList'', PDict [(''author'', PList [PDict [(''fullName'', PStr ''Doe J'')]])]),
            (''doi'', PStr ''10.1/x'')]"

definition hit_record1 :: rec where
  "hit_record1 =
     \<lparr>Source = ''Europe PMC'', Title = ''Virtual Patients'', Authors = ''Doe J'',
      Year = ''2020'', Abstract = PStr [], DOI = PStr ''10.1/x'',
      URL = PStr ''https://europepmc.org/article/PMC/PMC1''\<rparr>"



text \<open>
  Worlds in which one provider fails. In each, PubMed finds nothing, an arXiv page has
  no entries and a JSON body is the empty object unless said otherwise.
\<close>

definition quiet_response :: response where
  "quiet_response =
     \<lparr>status_code = 200, content_xml = Inr (Element (atom ''feed'') None []), json = Inr (PDict [])\<rparr>"

text \<open>CrossRef answers with status 500.\<close>

definition crossref_down :: env where
  "crossref_down =
     \<lparr>esearch = (\<lambda>term retmax. Inr (PDict [(''IdList'', PList [])])),
      efetch = (\<lambda>ids. Inr []),
      requests_get = (\<lambda>req. if req = crossref_request then Inr (json_response 500 PNone)
                            else Inr quiet_response)\<rparr>"

text \<open>Europe PMC answers the first page with one hit and the second with status 503.\<close>

definition epmc_down :: env where
  "epmc_down =
     \<lparr>esearch = (\<lambda>term retmax. Inr (PDict [(''IdList'', PList [])])),
      efetch = (\<lambda>ids. Inr []),
      requests_get = (\<lambda>req.
        if req = epmc_request 1 then
          Inr (json_response 200 (PDict [(''resultList'', PDict [(''result'', PList [hit1])])]))
        else if req = epmc_request 2 then Inr (json_response 503 PNone)
        else Inr quiet_response)\<rparr>"

text \<open>arXiv answers with status 503 and a body that is not XML.\<close>

definition arxiv_down :: env where
  "arxiv_down =
     \<lparr>esearch = (\<lambda>term retmax. Inr (PDict [(''IdList'', PList [])])),
      efetch = (\<lambda>ids. Inr []),
      requests_get = (\<lambda>req.
        if req = arxiv_request 0 then
          Inr \<lparr>status_code = 503, content_xml = Inl ParseError, json = Inl JSONDecodeError\<rparr>
        else Inr quiet_response)\<rparr>"

text \<open>arXiv answers with status 500 and a feed without entries.\<close>

definition arxiv_error_feed :: env where
  "arxiv_error_feed =
     \<lparr>esearch = (\<lambda>term retmax. Inr (PDict [(''IdList'', PList [])])),
      efetch = (\<lambda>ids. Inr []),
      requests_get = (\<lambda>req. Inr (xml_response 500 []))\<rparr>"

text \<open>The PubMed search fails with HTTP status 500, which the Entrez library raises.\<close>

definition pubmed_down :: env where
  "pubmed_down =
     \<lparr>esearch = (\<lambda>term retmax. Inl (HTTPError 500)),
      efetch = (\<lambda>ids. Inr []),
      requests_get = (\<lambda>req. Inr quiet_response)\<rparr>"

text \<open>A CrossRef item with four authors, the record made of it, and a world that returns it.\<close>

definition item1 :: pyval where
  "item1 =
     PDict [(''title'', PList [PStr ''On Twins '']),
            (''author'', PList [PDict [(''given'', PStr ''Ada''), (''family'', PStr ''Lovelace'')],
                               PDict [(''family'', PStr ''Turing'')],
                               PDict [(''given'', PStr ''Grace'')],
                               PDict [(''sequence'', PStr ''additional'')]]),
            (''issued'', PDict [(''date-parts'', PList [PList [PInt 2021, PInt 5]])]),
            (''DOI'', PStr ''10.1000/twins''),
            (''URL'', PStr ''https://doi.org/10.1000/twins'')]"

definition item_record1 :: rec where
  "item_record1 =
     \<lparr>Source = ''CrossRef'', Title = ''On Twins'', Authors = ''Ada Lovelace; Turing; Grace; '',
      Year = ''2021'', Abstract = PStr [], DOI = PStr ''10.1000/twins'',
      URL = PStr ''https://doi.org/10.1000/twins''\<rparr>"


text \<open>An arXiv entry whose summary element has no text.\<close>

definition entry2 :: xml where
  "entry2 =
     Element (atom ''entry'') None
       [Element (atom ''id'') (Some ''http://arxiv.org/abs/2101.00002v1'') [],
        Element (atom ''published'') (Some ''2021-02-03T00:00:00Z'') [],
        Element (atom ''title'') (Some ''No Abstract'') [],
        Element (atom ''summary'') None []]"


section \<open>Basic facts\<close>

lemma bnd_Inr_iff: "bnd m f = Inr y \<longleftrightarrow> (\<exists>x. m = Inr x \<and> f x = Inr y)"
  by (cases m) (simp_all add: bnd_def)

lemma bnd_simps [simp]: "bnd (Inl e) f = Inl e" "bnd (Inr x) f = f x"
  by (simp_all add: bnd_def)



lemma atom_inj [simp]: "atom a = atom b \<longleftrightarrow> a = b"
  by (simp add: atom_def)

section \<open>Properties of the duplicate removal\<close>

lemma fold_dedup_step:
  "fold dedup_step rs (S, u) = (S \<union> dedup_key ` set rs, u @ firsts S rs)"
  by (induction rs arbitrary: S u) (auto simp: dedup_step_def Let_def)

lemma dedup_firsts: "dedup rs = firsts {} rs"
  by (simp add: dedup_def fold_dedup_step)

lemma firsts_subseq: "subseq (firsts S rs) rs"
  by (induction rs arbitrary: S) auto

lemma firsts_keys: "dedup_key ` set (firsts S rs) = dedup_key ` set rs - S"
  by (induction rs arbitrary: S) auto

lemma firsts_distinct: "distinct (map dedup_key (firsts S rs))"
proof (induction rs arbitrary: S)
  case Nil
  show ?case by simp
next
  case (Cons r rs)
  have "dedup_key r \<notin> dedup_key ` set (firsts (insert (dedup_key r) S) rs)"
    by (simp add: firsts_keys)
  with Cons show ?case by simp
qed

lemma firsts_length: "length (firsts S rs) \<le> length rs"
  by (induction rs arbitrary: S) (auto intro: le_SucI)

lemma firsts_index:
  "firsts S rs =
     map (\<lambda>i. rs ! i)
       (filter (\<lambda>i. dedup_key (rs ! i) \<notin> S \<and> (\<forall>j<i. dedup_key (rs ! j) \<noteq> dedup_key (rs ! i)))
          [0..<length rs])"
proof (induction rs arbitrary: S)
  case Nil
  show ?case by simp
next
  case (Cons r rs)
  have upt: "[0..<length (r # rs)] = 0 # map Suc [0..<length rs]"
    by (simp add: upt_conv_Cons map_Suc_upt del: upt_Suc)
  show ?case
  proof (cases "dedup_key r \<in> S")
    case True
    then have "firsts S (r # rs) = firsts S rs" by simp
    also have "\<dots> = map (\<lambda>i. rs ! i)
       (filter (\<lambda>i. dedup_key (rs ! i) \<notin> S \<and> (\<forall>j<i. dedup_key (rs ! j) \<noteq> dedup_key (rs ! i)))
          [0..<length rs])"
      by (rule Cons.IH)
    also have "\<dots> = map (\<lambda>i. (r # rs) ! i)
       (filter (\<lambda>i. dedup_key ((r # rs) ! i) \<notin> S \<and>
                 (\<forall>j<i. dedup_key ((r # rs) ! j) \<noteq> dedup_key ((r # rs) ! i)))
          [0..<length (r # rs)])"
    proof -
      have "filter (\<lambda>i. dedup_key (rs ! i) \<notin> S \<and> (\<forall>j<i. dedup_key (rs ! j) \<noteq> dedup_key (rs ! i)))
              [0..<length rs] =
            filter (\<lambda>i. dedup_key (rs ! i) \<notin> S \<and> dedup_key r \<noteq> dedup_key (rs ! i) \<and>
                      (\<forall>j<i. dedup_key (rs ! j) \<noteq> dedup_key (rs ! i)))
              [0..<length rs]"
        using True by (intro filter_cong refl) auto
      then show ?thesis
        unfolding upt using True by (simp add: filter_map comp_def All_less_Suc2)
    qed
    finally show ?thesis .
  next
    case False
    then have "firsts S (r # rs) = r # firsts (insert (dedup_key r) S) rs" by simp
    also have "firsts (insert (dedup_key r) S) rs = map (\<lambda>i. rs ! i)
       (filter (\<lambda>i. dedup_key (rs ! i) \<notin> insert (dedup_key r) S \<and>
                 (\<forall>j<i. dedup_key (rs ! j) \<noteq> dedup_key (rs ! i)))
          [0..<length rs])"
      by (rule Cons.IH)
    also have "r # \<dots> = map (\<lambda>i. (r # rs) ! i)
       (filter (\<lambda>i. dedup_key ((r # rs) ! i) \<notin> S \<and>
                 (\<forall>j<i. dedup_key ((r # rs) ! j) \<noteq> dedup_key ((r # rs) ! i)))
          [0..<length (r # rs)])"
    proof -
      have "filter (\<lambda>i. dedup_key (rs ! i) \<notin> insert (dedup_key r) S \<and>
                      (\<forall>j<i. dedup_key (rs ! j) \<noteq> dedup_key (rs ! i)))
              [0..<length rs] =
            filter (\<lambda>i. dedup_key (rs ! i) \<notin> S \<and> dedup_key r \<noteq> dedup_key (rs ! i) \<and>
                      (\<forall>j<i. dedup_key (rs ! j) \<noteq> dedup_key (rs ! i)))
              [0..<length rs]"
        by (intro filter_cong refl) auto
      then show ?thesis
        unfolding upt using False by (simp add: filter_map comp_def All_less_Suc2)
    qed
    finally show ?thesis .
  qed
qed

lemma firsts_fixed:
  "dedup_key ` set rs \<inter> S = {} \<Longrightarrow> distinct (map dedup_key rs) \<Longrightarrow> firsts S rs = rs"
  by (induction rs arbitrary: S) auto





text \<open>
  C2. The output of the duplicate removal is a subsequence of its input, no longer than
  it, with every key of the input exactly once, and it consists of the records at
  the positions where a key occurs for the first time, in input order; the records are
  the input's own, with no field changed.
\<close>

theorem dedup_first_occurrences:
  "subseq (dedup rs) rs \<and>
   length (dedup rs) \<le> length rs \<and>
   distinct (map dedup_key (dedup rs)) \<and>
   dedup_key ` set (dedup rs) = dedup_key ` set rs \<and>
   dedup rs = first_occurrences rs"
proof -
  have "dedup rs = first_occurrences rs"
    unfolding dedup_firsts first_occurrences_def firsts_index [of "{}" rs]
    by (simp add: Ball_def)
  moreover have "subseq (dedup rs) rs" "length (dedup rs) \<le> length rs"
    "distinct (map dedup_key (dedup rs))" "dedup_key ` set (dedup rs) = dedup_key ` set rs"
    by (simp_all add: dedup_firsts firsts_subseq firsts_length firsts_distinct firsts_keys)
  ultimately show ?thesis by blast
qed

theorem dedup_first_occurrences_witness:
  "dedup [mk_rec ''PubMed'' ''A Study'' ''2021'', mk_rec ''arXiv'' ''Other'' ''2020'',
          mk_rec ''CrossRef'' ''a study'' ''2021'', mk_rec ''Europe PMC'' ''OTHER'' ''2020'',
          mk_rec ''Europe PMC'' ''Other'' ''2021''] =
     [mk_rec ''PubMed'' ''A Study'' ''2021'', mk_rec ''arXiv'' ''Other'' ''2020'',
      mk_rec ''Europe PMC'' ''Other'' ''2021''] \<and>
   first_occurrences
         [mk_rec ''PubMed'' ''A Study'' ''2021'', mk_rec ''arXiv'' ''Other'' ''2020'',
          mk_rec ''CrossRef'' ''a study'' ''2021'', mk_rec ''Europe PMC'' ''OTHER'' ''2020'',
          mk_rec ''Europe PMC'' ''Other'' ''2021''] =
     [mk_rec ''PubMed'' ''A Study'' ''2021'', mk_rec ''arXiv'' ''Other'' ''2020'',
      mk_rec ''Europe PMC'' ''Other'' ''2021'']"
proof -
  have run: "dedup [mk_rec ''PubMed'' ''A Study'' ''2021'', mk_rec ''arXiv'' ''Other'' ''2020'',
          mk_rec ''CrossRef'' ''a study'' ''2021'', mk_rec ''Europe PMC'' ''OTHER'' ''2020'',
          mk_rec ''Europe PMC'' ''Other'' ''2021''] =
     [mk_rec ''PubMed'' ''A Study'' ''2021'', mk_rec ''arXiv'' ''Other'' ''2020'',
      mk_rec ''Europe PMC'' ''Other'' ''2021'']"
    by (simp add: dedup_def dedup_step_def dedup_key_def lower_def lower_char_def mk_rec_def)
  show ?thesis
    using run dedup_first_occurrences
      [of "[mk_rec ''PubMed'' ''A Study'' ''2021'', mk_rec ''arXiv'' ''Other'' ''2020'',
          mk_rec ''CrossRef'' ''a study'' ''2021'', mk_rec ''Europe PMC'' ''OTHER'' ''2020'',
          mk_rec ''Europe PMC'' ''Other'' ''2021'']"]
    by simp
qed

text \<open>
  C6. Removing duplicates from the output of the duplicate removal changes nothing.
\<close>

theorem dedup_idempotent: "dedup (dedup rs) = dedup rs"
proof -
  have "firsts {} (firsts {} rs) = firsts {} rs"
    by (rule firsts_fixed) (simp_all add: firsts_distinct)
  then show ?thesis by (simp add: dedup_firsts)
qed

theorem dedup_idempotent_witness:
  "dedup (dedup [mk_rec ''PubMed'' ''A Study'' ''2021'', mk_rec ''CrossRef'' ''a study'' ''2021'']) =
     [mk_rec ''PubMed'' ''A Study'' ''2021'']"
proof -
  have "dedup [mk_rec ''PubMed'' ''A Study'' ''2021'', mk_rec ''CrossRef'' ''a study'' ''2021''] =
     [mk_rec ''PubMed'' ''A Study'' ''2021'']"
    by (simp add: dedup_def dedup_step_def dedup_key_def lower_def lower_char_def mk_rec_def)
  then show ?thesis
    using dedup_idempotent
      [of "[mk_rec ''PubMed'' ''A Study'' ''2021'', mk_rec ''CrossRef'' ''a study'' ''2021'']"]
    by simp
qed

section \<open>The arXiv loop\<close>





lemma arxiv_record_entry1: "arxiv_record entry1 = Inr record1"
  by (simp add: arxiv_record_def entry1_def record1_def find_text_def find_elem_def findall_def
      py_strip_def strip_def is_space_def py_split0_def split0_def join_strs_def)









section \<open>The Europe PMC loop\<close>




section \<open>The budget and the number of records\<close>
















lemma epmc_record_hit1: "epmc_record hit1 = Inr hit_record1"
  by (simp add: epmc_record_def hit1_def hit_record1_def py_get_def py_strip_def strip_def
      is_space_def py_iter_def join_strs_def py_str_def)










section \<open>Responses with a failure status\<close>

lemma str_int_500: "str_int 500 = ''500''"
  by (simp add: str_int_def str_nat.simps [of 500] str_nat.simps [of 50] str_nat.simps [of 5]
      digit_char_def)

lemma str_int_503: "str_int 503 = ''503''"
  by (simp add: str_int_def str_nat.simps [of 503] str_nat.simps [of 50] str_nat.simps [of 5]
      digit_char_def)

lemma crossref_bad_status:
  "requests_get w crossref_request = Inr r \<Longrightarrow> status_code r \<noteq> 200 \<Longrightarrow>
   search_crossref w st =
     Done (st\<lparr>sent := sent st @ [crossref_request],
              stdout := stdout st @
                [''[CrossRef] Failed request (status '' @ str_int (status_code r) @ '')'']\<rparr>)"
  by (simp add: search_crossref_def Let_def)

lemma epmc_bad_status:
  "retrieved < MAX_RESULTS \<Longrightarrow> requests_get w (epmc_request page) = Inr r \<Longrightarrow>
   status_code r \<noteq> 200 \<Longrightarrow>
   epmc_loop w page retrieved st =
     Some (Done (st\<lparr>sent := sent st @ [epmc_request page],
                    stdout := stdout st @
                      [''[Europe PMC] Failed request (status '' @ str_int (status_code r) @ '')'']\<rparr>))"
  by (subst epmc_loop.simps) (simp add: Let_def)

text \<open>
  C3 (as amended). The CrossRef and the Europe PMC adapter read the status of the
  response. When it is not 200 they print one line with the provider's name and the
  status and return, without raising, with the records gathered so far: CrossRef has
  added none yet, Europe PMC keeps those of the pages before. After such a failure of
  CrossRef the Europe PMC search still runs.
\<close>

theorem status_failure_is_local:
  "(requests_get w crossref_request = Inr rc \<and> status_code rc \<noteq> 200 \<longrightarrow>
      search_crossref w st =
        Done (st\<lparr>sent := sent st @ [crossref_request],
                 stdout := stdout st @
                   [''[CrossRef] Failed request (status '' @ str_int (status_code rc) @ '')'']\<rparr>)) \<and>
   (retrieved < MAX_RESULTS \<and> requests_get w (epmc_request page) = Inr re \<and>
    status_code re \<noteq> 200 \<longrightarrow>
      epmc_loop w page retrieved st =
        Some (Done (st\<lparr>sent := sent st @ [epmc_request page],
                       stdout := stdout st @
                         [''[Europe PMC] Failed request (status '' @ str_int (status_code re) @ '')'']\<rparr>))) \<and>
   (search_pubmed w st = Done sp \<and> search_arxiv w sp = Some (Done sa) \<and>
    requests_get w crossref_request = Inr rc \<and> status_code rc \<noteq> 200 \<longrightarrow>
      run_searches w st =
        search_europe_pmc w
          (sa\<lparr>sent := sent sa @ [crossref_request],
               stdout := stdout sa @
                 [''[CrossRef] Failed request (status '' @ str_int (status_code rc) @ '')'']\<rparr>))"
  by (simp add: crossref_bad_status epmc_bad_status run_searches_def)

lemma pubmed_nothing:
  "esearch w QUERY MAX_RESULTS = Inr (PDict [(''IdList'', PList [])]) \<Longrightarrow> efetch w [] = Inr [] \<Longrightarrow>
   search_pubmed w st = Done st"
  by (simp add: search_pubmed_def py_getitem_def py_join_def py_iter_def join_strs_def)

lemma arxiv_quiet:
  "requests_get w (arxiv_request 0) = Inr quiet_response \<Longrightarrow>
   search_arxiv w st = Some (Done (st\<lparr>sent := sent st @ [arxiv_request 0]\<rparr>))"
  unfolding search_arxiv_def
  by (subst arxiv_loop.simps) (simp add: Let_def quiet_response_def findall_def MAX_RESULTS_def)

lemma epmc_quiet:
  "requests_get w (epmc_request 1) = Inr quiet_response \<Longrightarrow>
   search_europe_pmc w st = Some (Done (st\<lparr>sent := sent st @ [epmc_request 1]\<rparr>))"
  unfolding search_europe_pmc_def
  by (subst epmc_loop.simps)
     (simp add: Let_def quiet_response_def epmc_hit_list_def py_get_def py_truthy_def MAX_RESULTS_def)

lemma requests_distinct:
  "arxiv_request s \<noteq> crossref_request" "epmc_request p \<noteq> crossref_request"
  "arxiv_request s \<noteq> epmc_request p"
  by (simp_all add: arxiv_request_def crossref_request_def epmc_request_def)

theorem status_failure_is_local_witness:
  "run_searches crossref_down state0 =
     Some (Done \<lparr>results = [], stdout = [''[CrossRef] Failed request (status 500)''],
                 sent = [arxiv_request 0, crossref_request, epmc_request 1]\<rparr>) \<and>
   search_europe_pmc epmc_down state0 =
     Some (Done \<lparr>results = [hit_record1], stdout = [''[Europe PMC] Failed request (status 503)''],
                 sent = [epmc_request 1, epmc_request 2]\<rparr>)"
proof -
  have p: "search_pubmed crossref_down state0 = Done state0"
    by (rule pubmed_nothing) (simp_all add: crossref_down_def)
  have a: "search_arxiv crossref_down state0 = Some (Done (state0\<lparr>sent := sent state0 @ [arxiv_request 0]\<rparr>))"
    by (rule arxiv_quiet) (simp add: crossref_down_def requests_distinct)
  have c: "requests_get crossref_down crossref_request = Inr (json_response 500 PNone)"
    "status_code (json_response 500 PNone) \<noteq> 200"
    by (simp_all add: crossref_down_def json_response_def)
  have e: "search_europe_pmc crossref_down st =
      Some (Done (st\<lparr>sent := sent st @ [epmc_request 1]\<rparr>))" for st
    by (rule epmc_quiet) (simp add: crossref_down_def requests_distinct)
  have first: "run_searches crossref_down state0 =
     Some (Done \<lparr>results = [], stdout = [''[CrossRef] Failed request (status 500)''],
                 sent = [arxiv_request 0, crossref_request, epmc_request 1]\<rparr>)"
    using status_failure_is_local
      [where w = crossref_down and rc = "json_response 500 PNone" and st = state0
         and sp = state0 and sa = "state0\<lparr>sent := sent state0 @ [arxiv_request 0]\<rparr>"] p a c
    by (simp add: e state0_def json_response_def str_int_500)
  have g1: "requests_get epmc_down (epmc_request 1) =
      Inr (json_response 200 (PDict [(''resultList'', PDict [(''result'', PList [hit1])])]))"
    by (simp add: epmc_down_def)
  have g2: "requests_get epmc_down (epmc_request 2) = Inr (json_response 503 PNone)"
    by (simp add: epmc_down_def epmc_request_def)
  have page1: "search_europe_pmc epmc_down state0 =
      epmc_loop epmc_down 2 1 (state0\<lparr>sent := [epmc_request 1], results := [hit_record1]\<rparr>)"
    unfolding search_europe_pmc_def
    by (subst epmc_loop.simps)
       (simp add: g1 Let_def json_response_def epmc_hit_list_def py_get_def py_truthy_def
          py_iter_def epmc_record_hit1 MAX_RESULTS_def state0_def)
  have "epmc_loop epmc_down 2 1 (state0\<lparr>sent := [epmc_request 1], results := [hit_record1]\<rparr>) =
     Some (Done \<lparr>results = [hit_record1], stdout = [''[Europe PMC] Failed request (status 503)''],
                 sent = [epmc_request 1, epmc_request 2]\<rparr>)"
    using status_failure_is_local
      [where w = epmc_down and retrieved = 1 and page = 2 and re = "json_response 503 PNone"
         and st = "state0\<lparr>sent := [epmc_request 1], results := [hit_record1]\<rparr>"] g2
    by (simp add: json_response_def MAX_RESULTS_def state0_def str_int_503)
  with page1 have second: "search_europe_pmc epmc_down state0 =
     Some (Done \<lparr>results = [hit_record1], stdout = [''[Europe PMC] Failed request (status 503)''],
                 sent = [epmc_request 1, epmc_request 2]\<rparr>)"
    by simp
  from first second show ?thesis by simp
qed

text \<open>
  C3 as stated fails for the other two adapters. The arXiv adapter never reads the
  status: a response with status 500 and a feed without entries ends it with nothing
  printed, and a response with status 503 whose body is not XML raises
  \<open>ParseError\<close>, which ends the whole run before CrossRef and Europe PMC are asked.
  A failure of the PubMed search is raised by the Entrez library and ends the run
  before any other adapter has started.
\<close>

theorem status_failure_not_handled_everywhere:
  "search_arxiv arxiv_error_feed state0 =
     Some (Done \<lparr>results = [], stdout = [], sent = [arxiv_request 0]\<rparr>) \<and>
   run_searches arxiv_down state0 =
     Some (Raised ParseError \<lparr>results = [], stdout = [], sent = [arxiv_request 0]\<rparr>) \<and>
   run_searches pubmed_down state0 =
     Some (Raised (HTTPError 500) \<lparr>results = [], stdout = [], sent = []\<rparr>)"
proof -
  have a: "search_arxiv arxiv_error_feed state0 =
     Some (Done \<lparr>results = [], stdout = [], sent = [arxiv_request 0]\<rparr>)"
    unfolding search_arxiv_def
    by (subst arxiv_loop.simps)
       (simp add: arxiv_error_feed_def xml_response_def findall_def Let_def MAX_RESULTS_def state0_def)
  have p: "search_pubmed arxiv_down state0 = Done state0"
    by (rule pubmed_nothing) (simp_all add: arxiv_down_def)
  have "search_arxiv arxiv_down state0 =
     Some (Raised ParseError \<lparr>results = [], stdout = [], sent = [arxiv_request 0]\<rparr>)"
    unfolding search_arxiv_def
    by (subst arxiv_loop.simps) (simp add: arxiv_down_def Let_def MAX_RESULTS_def state0_def)
  then have b: "run_searches arxiv_down state0 =
     Some (Raised ParseError \<lparr>results = [], stdout = [], sent = [arxiv_request 0]\<rparr>)"
    by (simp add: run_searches_def p)
  have c: "run_searches pubmed_down state0 =
     Some (Raised (HTTPError 500) \<lparr>results = [], stdout = [], sent = []\<rparr>)"
    by (simp add: run_searches_def search_pubmed_def pubmed_down_def state0_def)
  from a b c show ?thesis by simp
qed

section \<open>The CrossRef request and author names\<close>






lemma str_int_2021: "str_int 2021 = ''2021''"
  by (simp add: str_int_def str_nat.simps [of 2021] str_nat.simps [of 202] str_nat.simps [of 20]
      str_nat.simps [of 2] digit_char_def)

lemma crossref_record_item1: "crossref_record item1 = Inr item_record1"
  by (simp add: crossref_record_def item1_def item_record1_def py_get_def py_index0_def
      py_iter_def crossref_author_def py_in_def py_getitem_def join_strs_def py_strip_def
      strip_def is_space_def py_str_def str_int_2021)



section \<open>The fields of a record\<close>

lemma py_get_dict: "py_get (PDict d) k dflt = Inr (case map_of d k of Some v \<Rightarrow> v | None \<Rightarrow> dflt)"
  by (simp add: py_get_def)

lemma py_strip_Inr: "py_strip v = Inr s \<Longrightarrow> \<exists>t. v = PStr t \<and> s = strip t"
  by (cases v) (simp_all add: py_strip_def)

lemma py_split0_Inr: "py_split0 c v = Inr s \<Longrightarrow> \<exists>t. v = PStr t \<and> s = split0 c t"
  by (cases v) (simp_all add: py_split0_def)

lemma strip_Nil: "strip [] = []"
  by (simp add: strip_def)

lemma find_text_Inr:
  "find_text e t = Inr v \<Longrightarrow>
     \<exists>c. find_elem e t = Some c \<and> v = (case etext c of None \<Rightarrow> PNone | Some s \<Rightarrow> PStr s)"
  by (auto simp: find_text_def split: option.splits)

lemma pubmed_record_fields:
  assumes "pubmed_record (PDict d) = Inr r"
  shows "Source r = ''PubMed''"
    and "map_of d ''TI'' = None \<Longrightarrow> Title r = []"
    and "map_of d ''AU'' = None \<Longrightarrow> Authors r = []"
    and "Year r = (case map_of d ''DP'' of Some (PStr dp) \<Rightarrow> split0 CHR '' '' dp | _ \<Rightarrow> [])"
    and "Abstract r = (case map_of d ''AB'' of None \<Rightarrow> PStr [] | Some v \<Rightarrow> v)"
    and "DOI r = (case map_of d ''LID'' of None \<Rightarrow> PStr [] | Some v \<Rightarrow> v)"
    and "URL r = PStr (''https://pubmed.ncbi.nlm.nih.gov/'' @
           py_str (case map_of d ''PMID'' of None \<Rightarrow> PStr [] | Some v \<Rightarrow> v) @ ''/'')"
proof -
  from assms obtain title authors year where
    t: "py_strip (case map_of d ''TI'' of Some v \<Rightarrow> v | None \<Rightarrow> PStr []) = Inr title"
    and a: "py_join ''; '' (case map_of d ''AU'' of Some v \<Rightarrow> v | None \<Rightarrow> PList []) = Inr authors"
    and y: "py_split0 CHR '' '' (case map_of d ''DP'' of Some v \<Rightarrow> v | None \<Rightarrow> PStr []) = Inr year"
    and r: "r = \<lparr>Source = ''PubMed'', Title = title, Authors = authors, Year = year,
          Abstract = (case map_of d ''AB'' of Some v \<Rightarrow> v | None \<Rightarrow> PStr []),
          DOI = (case map_of d ''LID'' of Some v \<Rightarrow> v | None \<Rightarrow> PStr []),
          URL = PStr (''https://pubmed.ncbi.nlm.nih.gov/'' @
             py_str (case map_of d ''PMID'' of Some v \<Rightarrow> v | None \<Rightarrow> PStr []) @ ''/'')\<rparr>"
    by (auto simp: pubmed_record_def py_get_dict bnd_Inr_iff)
  show "Source r = ''PubMed''" using r by simp
  show "Title r = []" if "map_of d ''TI'' = None"
    using t that r by (simp add: py_strip_def strip_Nil)
  show "Authors r = []" if "map_of d ''AU'' = None"
    using a that r by (simp add: py_join_def py_iter_def join_strs_def)
  show "Year r = (case map_of d ''DP'' of Some (PStr dp) \<Rightarrow> split0 CHR '' '' dp | _ \<Rightarrow> [])"
    using py_split0_Inr [OF y] r by (auto simp: split0_def split: option.splits pyval.splits)
  show "Abstract r = (case map_of d ''AB'' of None \<Rightarrow> PStr [] | Some v \<Rightarrow> v)"
    using r by (simp split: option.splits)
  show "DOI r = (case map_of d ''LID'' of None \<Rightarrow> PStr [] | Some v \<Rightarrow> v)"
    using r by (simp split: option.splits)
  show "URL r = PStr (''https://pubmed.ncbi.nlm.nih.gov/'' @
           py_str (case map_of d ''PMID'' of None \<Rightarrow> PStr [] | Some v \<Rightarrow> v) @ ''/'')"
    using r by (simp split: option.splits)
qed

lemma crossref_record_fields:
  assumes "crossref_record (PDict d) = Inr r"
  shows "Source r = ''CrossRef''"
    and "map_of d ''title'' = None \<Longrightarrow> Title r = []"
    and "map_of d ''author'' = None \<Longrightarrow> Authors r = []"
    and "map_of d ''issued'' = None \<Longrightarrow> Year r = ''None''"
    and "map_of d ''issued'' = Some (PDict i) \<Longrightarrow>
         map_of i ''date-parts'' = Some (PList (PList (v # rest) # others)) \<Longrightarrow> Year r = py_str v"
    and "Abstract r = PStr []"
    and "DOI r = (case map_of d ''DOI'' of None \<Rightarrow> PStr [] | Some v \<Rightarrow> v)"
    and "URL r = (case map_of d ''URL'' of None \<Rightarrow> PStr [] | Some v \<Rightarrow> v)"
proof -
  from assms obtain title authors title' year where
    t: "py_index0 (case map_of d ''title'' of Some v \<Rightarrow> v | None \<Rightarrow> PList [PStr []]) = Inr title"
    and a: "bnd (py_iter (case map_of d ''author'' of Some v \<Rightarrow> v | None \<Rightarrow> PList []))
              (mapE crossref_author) = Inr authors"
    and t': "py_strip title = Inr title'"
    and y: "bnd (bnd (bnd (py_get (PDict d) ''issued'' (PDict []))
            (\<lambda>issued. py_get issued ''date-parts'' (PList [PList [PNone]]))) py_index0) py_index0
          = Inr year"
    and r: "r = \<lparr>Source = ''CrossRef'', Title = title', Authors = join ''; '' authors,
          Year = py_str year, Abstract = PStr [],
          DOI = (case map_of d ''DOI'' of Some v \<Rightarrow> v | None \<Rightarrow> PStr []),
          URL = (case map_of d ''URL'' of Some v \<Rightarrow> v | None \<Rightarrow> PStr [])\<rparr>"
    by (auto simp: crossref_record_def py_get_dict bnd_Inr_iff)
  show "Source r = ''CrossRef''" using r by simp
  show "Title r = []" if "map_of d ''title'' = None"
    using t t' that r by (auto simp: py_index0_def py_strip_def strip_Nil)
  show "Authors r = []" if "map_of d ''author'' = None"
    using a that r by (auto simp: py_iter_def)
  show "Year r = ''None''" if "map_of d ''issued'' = None"
    using y that r by (auto simp: py_get_dict py_index0_def py_str_def)
  show "Year r = py_str v" if "map_of d ''issued'' = Some (PDict i)"
         "map_of i ''date-parts'' = Some (PList (PList (v # rest) # others))"
    using y that r by (auto simp: py_get_dict py_index0_def)
  show "Abstract r = PStr []" using r by simp
  show "DOI r = (case map_of d ''DOI'' of None \<Rightarrow> PStr [] | Some v \<Rightarrow> v)"
    using r by (simp split: option.splits)
  show "URL r = (case map_of d ''URL'' of None \<Rightarrow> PStr [] | Some v \<Rightarrow> v)"
    using r by (simp split: option.splits)
qed

lemma epmc_record_fields:
  assumes "epmc_record (PDict d) = Inr r"
  shows "Source r = ''Europe PMC''"
    and "map_of d ''title'' = None \<Longrightarrow> Title r = []"
    and "map_of d ''authorList'' = None \<Longrightarrow> Authors r = []"
    and "Year r = py_str (case map_of d ''pubYear'' of None \<Rightarrow> PStr [] | Some v \<Rightarrow> v)"
    and "Abstract r = (case map_of d ''abstractText'' of None \<Rightarrow> PStr [] | Some v \<Rightarrow> v)"
    and "DOI r = (case map_of d ''doi'' of None \<Rightarrow> PStr [] | Some v \<Rightarrow> v)"
    and "URL r = PStr (''https://europepmc.org/article/'' @
           py_str (case map_of d ''source'' of None \<Rightarrow> PStr [] | Some v \<Rightarrow> v) @ ''/'' @
           py_str (case map_of d ''id'' of None \<Rightarrow> PStr [] | Some v \<Rightarrow> v))"
proof -
  from assms obtain title authors where
    t: "py_strip (case map_of d ''title'' of Some v \<Rightarrow> v | None \<Rightarrow> PStr []) = Inr title"
    and a: "bnd (bnd (bnd (py_get (case map_of d ''authorList'' of Some v \<Rightarrow> v | None \<Rightarrow> PDict [])
                ''author'' (PList [])) py_iter)
            (mapE (\<lambda>a. py_get a ''fullName'' (PStr [])))) (join_strs ''; '') = Inr authors"
    and r: "r = \<lparr>Source = ''Europe PMC'', Title = title, Authors = authors,
          Year = py_str (case map_of d ''pubYear'' of Some v \<Rightarrow> v | None \<Rightarrow> PStr []),
          Abstract = (case map_of d ''abstractText'' of Some v \<Rightarrow> v | None \<Rightarrow> PStr []),
          DOI = (case map_of d ''doi'' of Some v \<Rightarrow> v | None \<Rightarrow> PStr []),
          URL = PStr (''https://europepmc.org/article/'' @
             py_str (case map_of d ''source'' of Some v \<Rightarrow> v | None \<Rightarrow> PStr []) @ ''/'' @
             py_str (case map_of d ''id'' of Some v \<Rightarrow> v | None \<Rightarrow> PStr []))\<rparr>"
    by (auto simp: epmc_record_def py_get_dict bnd_Inr_iff)
  show "Source r = ''Europe PMC''" using r by simp
  show "Title r = []" if "map_of d ''title'' = None"
    using t that r by (simp add: py_strip_def strip_Nil)
  show "Authors r = []" if "map_of d ''authorList'' = None"
    using a that r by (simp add: py_get_dict py_iter_def join_strs_def)
  show "Year r = py_str (case map_of d ''pubYear'' of None \<Rightarrow> PStr [] | Some v \<Rightarrow> v)"
    using r by (simp split: option.splits)
  show "Abstract r = (case map_of d ''abstractText'' of None \<Rightarrow> PStr [] | Some v \<Rightarrow> v)"
    using r by (simp split: option.splits)
  show "DOI r = (case map_of d ''doi'' of None \<Rightarrow> PStr [] | Some v \<Rightarrow> v)"
    using r by (simp split: option.splits)
  show "URL r = PStr (''https://europepmc.org/article/'' @
           py_str (case map_of d ''source'' of None \<Rightarrow> PStr [] | Some v \<Rightarrow> v) @ ''/'' @
           py_str (case map_of d ''id'' of None \<Rightarrow> PStr [] | Some v \<Rightarrow> v))"
    using r by (simp split: option.splits)
qed

lemma arxiv_record_fields:
  assumes "arxiv_record e = Inr r"
  shows "\<exists>t p s i pt.
     find_elem e (atom ''title'') = Some t \<and> find_elem e (atom ''published'') = Some p \<and>
     find_elem e (atom ''summary'') = Some s \<and> find_elem e (atom ''id'') = Some i \<and>
     Source r = ''arXiv'' \<and> etext p = Some pt \<and> Year r = split0 CHR ''-'' pt \<and>
     Abstract r = (case etext s of None \<Rightarrow> PNone | Some x \<Rightarrow> PStr x) \<and>
     DOI r = PStr [] \<and>
     URL r = (case etext i of None \<Rightarrow> PNone | Some x \<Rightarrow> PStr x)"
proof -
  from assms obtain tv title authors pv year abstract link where
    t: "find_text e (atom ''title'') = Inr tv" "py_strip tv = Inr title"
    and p: "find_text e (atom ''published'') = Inr pv" "py_split0 CHR ''-'' pv = Inr year"
    and s: "find_text e (atom ''summary'') = Inr abstract"
    and i: "find_text e (atom ''id'') = Inr link"
    and r: "r = \<lparr>Source = ''arXiv'', Title = title, Authors = authors, Year = year,
          Abstract = abstract, DOI = PStr [], URL = link\<rparr>"
    by (auto simp: arxiv_record_def bnd_Inr_iff)
  from find_text_Inr [OF t(1)] obtain tc where tc: "find_elem e (atom ''title'') = Some tc" by blast
  from find_text_Inr [OF p(1)] obtain pc where
    pc: "find_elem e (atom ''published'') = Some pc"
      "pv = (case etext pc of None \<Rightarrow> PNone | Some s \<Rightarrow> PStr s)" by blast
  from py_split0_Inr [OF p(2)] pc(2) obtain pt where
    pt: "etext pc = Some pt" "year = split0 CHR ''-'' pt"
    by (auto split: option.splits)
  from find_text_Inr [OF s] obtain sc where
    sc: "find_elem e (atom ''summary'') = Some sc"
      "abstract = (case etext sc of None \<Rightarrow> PNone | Some s \<Rightarrow> PStr s)" by blast
  from find_text_Inr [OF i] obtain ic where
    ic: "find_elem e (atom ''id'') = Some ic"
      "link = (case etext ic of None \<Rightarrow> PNone | Some s \<Rightarrow> PStr s)" by blast
  from tc pc(1) pt sc ic r show ?thesis by simp
qed

lemma pubmed_record_empty:
  "pubmed_record (PDict []) =
     Inr \<lparr>Source = ''PubMed'', Title = [], Authors = [], Year = [], Abstract = PStr [],
          DOI = PStr [], URL = PStr ''https://pubmed.ncbi.nlm.nih.gov//''\<rparr>"
  by (simp add: pubmed_record_def py_get_def py_strip_def strip_def py_join_def py_iter_def
      join_strs_def py_split0_def split0_def py_str_def)

lemma crossref_record_empty:
  "crossref_record (PDict []) =
     Inr \<lparr>Source = ''CrossRef'', Title = [], Authors = [], Year = ''None'', Abstract = PStr [],
          DOI = PStr [], URL = PStr []\<rparr>"
  by (simp add: crossref_record_def py_get_def py_index0_def py_strip_def strip_def py_iter_def
      py_str_def)

lemma epmc_record_empty:
  "epmc_record (PDict []) =
     Inr \<lparr>Source = ''Europe PMC'', Title = [], Authors = [], Year = [], Abstract = PStr [],
          DOI = PStr [], URL = PStr ''https://europepmc.org/article//''\<rparr>"
  by (simp add: epmc_record_def py_get_def py_strip_def strip_def py_iter_def join_strs_def
      py_str_def)

text \<open>
  C4 (as amended). Every record has its seven fields, and \<open>Source\<close>, \<open>Title\<close>,
  \<open>Authors\<close> and \<open>Year\<close> are text by construction. For the three adapters that
  read a dict, a key that is absent gives the default: the empty text for the title,
  the authors, the abstract, the DOI and CrossRef's URL, the empty text for the year of
  PubMed and Europe PMC, and the text \<^verbatim>\<open>None\<close> for the year of CrossRef. A key that is
  present hands its value on unchanged to \<open>Abstract\<close>, \<open>DOI\<close> and CrossRef's
  \<open>URL\<close>, a null included. The arXiv adapter has no defaults: a record exists only
  when the entry has its title, published, summary and id elements, and \<open>Abstract\<close>
  and \<open>URL\<close> are the texts of the summary and id elements, \<^verbatim>\<open>None\<close> when the
  element has no text.
\<close>

theorem missing_values_default:
  "(pubmed_record (PDict d) = Inr r \<longrightarrow>
      Source r = ''PubMed'' \<and>
      (map_of d ''TI'' = None \<longrightarrow> Title r = []) \<and>
      (map_of d ''AU'' = None \<longrightarrow> Authors r = []) \<and>
      (map_of d ''DP'' = None \<longrightarrow> Year r = []) \<and>
      Abstract r = (case map_of d ''AB'' of None \<Rightarrow> PStr [] | Some v \<Rightarrow> v) \<and>
      DOI r = (case map_of d ''LID'' of None \<Rightarrow> PStr [] | Some v \<Rightarrow> v) \<and>
      URL r = PStr (''https://pubmed.ncbi.nlm.nih.gov/'' @
                py_str (case map_of d ''PMID'' of None \<Rightarrow> PStr [] | Some v \<Rightarrow> v) @ ''/'')) \<and>
   (crossref_record (PDict d) = Inr r \<longrightarrow>
      Source r = ''CrossRef'' \<and>
      (map_of d ''title'' = None \<longrightarrow> Title r = []) \<and>
      (map_of d ''author'' = None \<longrightarrow> Authors r = []) \<and>
      (map_of d ''issued'' = None \<longrightarrow> Year r = ''None'') \<and>
      Abstract r = PStr [] \<and>
      DOI r = (case map_of d ''DOI'' of None \<Rightarrow> PStr [] | Some v \<Rightarrow> v) \<and>
      URL r = (case map_of d ''URL'' of None \<Rightarrow> PStr [] | Some v \<Rightarrow> v)) \<and>
   (epmc_record (PDict d) = Inr r \<longrightarrow>
      Source r = ''Europe PMC'' \<and>
      (map_of d ''title'' = None \<longrightarrow> Title r = []) \<and>
      (map_of d ''authorList'' = None \<longrightarrow> Authors r = []) \<and>
      (map_of d ''pubYear'' = None \<longrightarrow> Year r = []) \<and>
      Abstract r = (case map_of d ''abstractText'' of None \<Rightarrow> PStr [] | Some v \<Rightarrow> v) \<and>
      DOI r = (case map_of d ''doi'' of None \<Rightarrow> PStr [] | Some v \<Rightarrow> v) \<and>
      URL r = PStr (''https://europepmc.org/article/'' @
                py_str (case map_of d ''source'' of None \<Rightarrow> PStr [] | Some v \<Rightarrow> v) @ ''/'' @
                py_str (case map_of d ''id'' of None \<Rightarrow> PStr [] | Some v \<Rightarrow> v))) \<and>
   (arxiv_record e = Inr r \<longrightarrow>
      (\<exists>t p s i. find_elem e (atom ''title'') = Some t \<and>
         find_elem e (atom ''published'') = Some p \<and>
         find_elem e (atom ''summary'') = Some s \<and> find_elem e (atom ''id'') = Some i \<and>
         Source r = ''arXiv'' \<and>
         Abstract r = (case etext s of None \<Rightarrow> PNone | Some x \<Rightarrow> PStr x) \<and>
         DOI r = PStr [] \<and>
         URL r = (case etext i of None \<Rightarrow> PNone | Some x \<Rightarrow> PStr x)))"
proof -
  have p: "pubmed_record (PDict d) = Inr r \<longrightarrow>
      Source r = ''PubMed'' \<and>
      (map_of d ''TI'' = None \<longrightarrow> Title r = []) \<and>
      (map_of d ''AU'' = None \<longrightarrow> Authors r = []) \<and>
      (map_of d ''DP'' = None \<longrightarrow> Year r = []) \<and>
      Abstract r = (case map_of d ''AB'' of None \<Rightarrow> PStr [] | Some v \<Rightarrow> v) \<and>
      DOI r = (case map_of d ''LID'' of None \<Rightarrow> PStr [] | Some v \<Rightarrow> v) \<and>
      URL r = PStr (''https://pubmed.ncbi.nlm.nih.gov/'' @
                py_str (case map_of d ''PMID'' of None \<Rightarrow> PStr [] | Some v \<Rightarrow> v) @ ''/'')"
  proof
    assume a: "pubmed_record (PDict d) = Inr r"
    have "map_of d ''DP'' = None \<longrightarrow> Year r = []"
      using pubmed_record_fields(4) [OF a] by simp
    with pubmed_record_fields(1,2,3,5,6,7) [OF a] show "Source r = ''PubMed'' \<and>
      (map_of d ''TI'' = None \<longrightarrow> Title r = []) \<and>
      (map_of d ''AU'' = None \<longrightarrow> Authors r = []) \<and>
      (map_of d ''DP'' = None \<longrightarrow> Year r = []) \<and>
      Abstract r = (case map_of d ''AB'' of None \<Rightarrow> PStr [] | Some v \<Rightarrow> v) \<and>
      DOI r = (case map_of d ''LID'' of None \<Rightarrow> PStr [] | Some v \<Rightarrow> v) \<and>
      URL r = PStr (''https://pubmed.ncbi.nlm.nih.gov/'' @
                py_str (case map_of d ''PMID'' of None \<Rightarrow> PStr [] | Some v \<Rightarrow> v) @ ''/'')"
      by blast
  qed
  have c: "crossref_record (PDict d) = Inr r \<longrightarrow>
      Source r = ''CrossRef'' \<and>
      (map_of d ''title'' = None \<longrightarrow> Title r = []) \<and>
      (map_of d ''author'' = None \<longrightarrow> Authors r = []) \<and>
      (map_of d ''issued'' = None \<longrightarrow> Year r = ''None'') \<and>
      Abstract r = PStr [] \<and>
      DOI r = (case map_of d ''DOI'' of None \<Rightarrow> PStr [] | Some v \<Rightarrow> v) \<and>
      URL r = (case map_of d ''URL'' of None \<Rightarrow> PStr [] | Some v \<Rightarrow> v)"
  proof
    assume a: "crossref_record (PDict d) = Inr r"
    from crossref_record_fields(1,2,3,4,6,7,8) [OF a] show "Source r = ''CrossRef'' \<and>
      (map_of d ''title'' = None \<longrightarrow> Title r = []) \<and>
      (map_of d ''author'' = None \<longrightarrow> Authors r = []) \<and>
      (map_of d ''issued'' = None \<longrightarrow> Year r = ''None'') \<and>
      Abstract r = PStr [] \<and>
      DOI r = (case map_of d ''DOI'' of None \<Rightarrow> PStr [] | Some v \<Rightarrow> v) \<and>
      URL r = (case map_of d ''URL'' of None \<Rightarrow> PStr [] | Some v \<Rightarrow> v)"
      by blast
  qed
  have e: "epmc_record (PDict d) = Inr r \<longrightarrow>
      Source r = ''Europe PMC'' \<and>
      (map_of d ''title'' = None \<longrightarrow> Title r = []) \<and>
      (map_of d ''authorList'' = None \<longrightarrow> Authors r = []) \<and>
      (map_of d ''pubYear'' = None \<longrightarrow> Year r = []) \<and>
      Abstract r = (case map_of d ''abstractText'' of None \<Rightarrow> PStr [] | Some v \<Rightarrow> v) \<and>
      DOI r = (case map_of d ''doi'' of None \<Rightarrow> PStr [] | Some v \<Rightarrow> v) \<and>
      URL r = PStr (''https://europepmc.org/article/'' @
                py_str (case map_of d ''source'' of None \<Rightarrow> PStr [] | Some v \<Rightarrow> v) @ ''/'' @
                py_str (case map_of d ''id'' of None \<Rightarrow> PStr [] | Some v \<Rightarrow> v))"
  proof
    assume a: "epmc_record (PDict d) = Inr r"
    have "map_of d ''pubYear'' = None \<longrightarrow> Year r = []"
      using epmc_record_fields(4) [OF a] by (simp add: py_str_def)
    with epmc_record_fields(1,2,3,5,6,7) [OF a] show "Source r = ''Europe PMC'' \<and>
      (map_of d ''title'' = None \<longrightarrow> Title r = []) \<and>
      (map_of d ''authorList'' = None \<longrightarrow> Authors r = []) \<and>
      (map_of d ''pubYear'' = None \<longrightarrow> Year r = []) \<and>
      Abstract r = (case map_of d ''abstractText'' of None \<Rightarrow> PStr [] | Some v \<Rightarrow> v) \<and>
      DOI r = (case map_of d ''doi'' of None \<Rightarrow> PStr [] | Some v \<Rightarrow> v) \<and>
      URL r = PStr (''https://europepmc.org/article/'' @
                py_str (case map_of d ''source'' of None \<Rightarrow> PStr [] | Some v \<Rightarrow> v) @ ''/'' @
                py_str (case map_of d ''id'' of None \<Rightarrow> PStr [] | Some v \<Rightarrow> v))"
      by blast
  qed
  have x: "arxiv_record e = Inr r \<longrightarrow>
      (\<exists>t p s i. find_elem e (atom ''title'') = Some t \<and>
         find_elem e (atom ''published'') = Some p \<and>
         find_elem e (atom ''summary'') = Some s \<and> find_elem e (atom ''id'') = Some i \<and>
         Source r = ''arXiv'' \<and>
         Abstract r = (case etext s of None \<Rightarrow> PNone | Some x \<Rightarrow> PStr x) \<and>
         DOI r = PStr [] \<and>
         URL r = (case etext i of None \<Rightarrow> PNone | Some x \<Rightarrow> PStr x))"
    using arxiv_record_fields [of e r] by blast
  from p c e x show ?thesis by blast
qed

theorem missing_values_default_witness:
  "pubmed_record (PDict []) =
     Inr \<lparr>Source = ''PubMed'', Title = [], Authors = [], Year = [], Abstract = PStr [],
          DOI = PStr [], URL = PStr ''https://pubmed.ncbi.nlm.nih.gov//''\<rparr> \<and>
   crossref_record (PDict []) =
     Inr \<lparr>Source = ''CrossRef'', Title = [], Authors = [], Year = ''None'', Abstract = PStr [],
          DOI = PStr [], URL = PStr []\<rparr> \<and>
   epmc_record (PDict []) =
     Inr \<lparr>Source = ''Europe PMC'', Title = [], Authors = [], Year = [], Abstract = PStr [],
          DOI = PStr [], URL = PStr ''https://europepmc.org/article//''\<rparr> \<and>
   arxiv_record entry1 = Inr record1 \<and>
   find_elem entry1 (atom ''summary'') = Some (Element (atom ''summary'') (Some ''We study twins.'') [])"
proof -
  have s: "find_elem entry1 (atom ''summary'') =
      Some (Element (atom ''summary'') (Some ''We study twins.'') [])"
    by (simp add: find_elem_def entry1_def)
  from missing_values_default
    [where d = "[]" and e = entry1 and
       r = "\<lparr>Source = ''CrossRef'', Title = [], Authors = [], Year = ''None'', Abstract = PStr [],
          DOI = PStr [], URL = PStr []\<rparr>"]
  have "crossref_record (PDict []) =
     Inr \<lparr>Source = ''CrossRef'', Title = [], Authors = [], Year = ''None'', Abstract = PStr [],
          DOI = PStr [], URL = PStr []\<rparr>"
    by (simp add: crossref_record_empty)
  with pubmed_record_empty epmc_record_empty arxiv_record_entry1 s show ?thesis by simp
qed

text \<open>
  C4 as stated fails: an arXiv entry whose summary element has no text gives a record
  whose \<open>Abstract\<close> is \<^verbatim>\<open>None\<close>, a Europe PMC hit whose \<^verbatim>\<open>doi\<close> is null gives a
  record whose \<open>DOI\<close> is \<^verbatim>\<open>None\<close>, and a CrossRef item without a date gives the
  year \<^verbatim>\<open>None\<close> as text, not the empty text.
\<close>

theorem null_and_none_fields:
  "arxiv_record entry2 =
     Inr \<lparr>Source = ''arXiv'', Title = ''No Abstract'', Authors = [], Year = ''2021'',
          Abstract = PNone, DOI = PStr [], URL = PStr ''http://arxiv.org/abs/2101.00002v1''\<rparr> \<and>
   epmc_record (PDict [(''title'', PStr ''Twins''), (''doi'', PNone)]) =
     Inr \<lparr>Source = ''Europe PMC'', Title = ''Twins'', Authors = [], Year = [],
          Abstract = PStr [], DOI = PNone, URL = PStr ''https://europepmc.org/article//''\<rparr> \<and>
   crossref_record (PDict [(''title'', PList [PStr ''Twins''])]) =
     Inr \<lparr>Source = ''CrossRef'', Title = ''Twins'', Authors = [], Year = ''None'',
          Abstract = PStr [], DOI = PStr [], URL = PStr []\<rparr>"
proof -
  have a: "arxiv_record entry2 =
     Inr \<lparr>Source = ''arXiv'', Title = ''No Abstract'', Authors = [], Year = ''2021'',
          Abstract = PNone, DOI = PStr [], URL = PStr ''http://arxiv.org/abs/2101.00002v1''\<rparr>"
    by (simp add: arxiv_record_def entry2_def find_text_def find_elem_def findall_def
        py_strip_def strip_def is_space_def py_split0_def split0_def join_strs_def)
  have b: "epmc_record (PDict [(''title'', PStr ''Twins''), (''doi'', PNone)]) =
     Inr \<lparr>Source = ''Europe PMC'', Title = ''Twins'', Authors = [], Year = [],
          Abstract = PStr [], DOI = PNone, URL = PStr ''https://europepmc.org/article//''\<rparr>"
    by (simp add: epmc_record_def py_get_def py_strip_def strip_def is_space_def py_iter_def
        join_strs_def py_str_def)
  have c: "crossref_record (PDict [(''title'', PList [PStr ''Twins''])]) =
     Inr \<lparr>Source = ''CrossRef'', Title = ''Twins'', Authors = [], Year = ''None'',
          Abstract = PStr [], DOI = PStr [], URL = PStr []\<rparr>"
    by (simp add: crossref_record_def py_get_def py_index0_def py_strip_def strip_def is_space_def
        py_iter_def py_str_def)
  from a b c show ?thesis by simp
qed

section \<open>The year field\<close>

lemma digit_char_is_digit: "k < 10 \<Longrightarrow> is_digit (digit_char k)"
proof -
  assume "k < 10"
  then consider "k = 0" | "k = 1" | "k = 2" | "k = 3" | "k = 4" | "k = 5" | "k = 6" | "k = 7"
    | "k = 8" | "k = 9"
    by atomize_elim arith
  then show ?thesis by cases (simp_all add: digit_char_def is_digit_def)
qed

lemma str_nat_digits: "list_all is_digit (str_nat n)"
proof (induction n rule: str_nat.induct)
  case (1 n)
  show ?case
  proof (cases "n < 10")
    case True
    then show ?thesis by (subst str_nat.simps) (simp add: digit_char_is_digit)
  next
    case False
    with 1 show ?thesis by (subst str_nat.simps) (simp add: digit_char_is_digit)
  qed
qed

lemma length_str_nat_small: "n < 10 \<Longrightarrow> length (str_nat n) = 1"
  by (subst str_nat.simps) simp

lemma length_str_nat_step: "10 \<le> n \<Longrightarrow> length (str_nat n) = Suc (length (str_nat (n div 10)))"
  by (subst str_nat.simps) simp

lemma length_str_nat_year: "1000 \<le> n \<Longrightarrow> n \<le> 9999 \<Longrightarrow> length (str_nat n) = 4"
proof -
  assume a: "1000 \<le> n" "n \<le> 9999"
  have "length (str_nat n) = Suc (length (str_nat (n div 10)))"
    using a by (intro length_str_nat_step) simp
  also have "length (str_nat (n div 10)) = Suc (length (str_nat (n div 10 div 10)))"
    using a by (intro length_str_nat_step) simp
  also have "length (str_nat (n div 10 div 10)) = Suc (length (str_nat (n div 10 div 10 div 10)))"
    using a by (intro length_str_nat_step) simp
  also have "length (str_nat (n div 10 div 10 div 10)) = 1"
    using a by (intro length_str_nat_small) simp
  finally show ?thesis by simp
qed

lemma year_of_int: "1000 \<le> n \<Longrightarrow> n \<le> 9999 \<Longrightarrow> is_year4 (py_str (PInt n))"
  by (simp add: py_str_def str_int_def is_year4_def str_nat_digits length_str_nat_year)

lemma digit_no_separator: "is_digit c \<Longrightarrow> c \<noteq> CHR '' '' \<and> c \<noteq> CHR ''-''"
  by (auto simp: is_digit_def)

lemma digits_no_separator:
  "list_all is_digit y \<Longrightarrow> CHR '' '' \<notin> set y \<and> CHR ''-'' \<notin> set y"
  using digit_no_separator by (induction y) auto

lemma split0_prefix: "c \<notin> set y \<Longrightarrow> split0 c (y @ c # rest) = y"
  by (induction y) (auto simp: split0_def)

lemma split0_all: "c \<notin> set y \<Longrightarrow> split0 c y = y"
  by (induction y) (auto simp: split0_def)

lemma year_of_text:
  assumes "is_year4 y"
  shows "split0 CHR '' '' y = y" "split0 CHR '' '' (y @ CHR '' '' # rest) = y"
    "split0 CHR ''-'' (y @ CHR ''-'' # rest) = y" "py_str (PStr y) = y"
  using assms digits_no_separator [of y]
  by (simp_all add: is_year4_def split0_prefix split0_all py_str_def)

text \<open>
  C5 (as amended). The year field is always text: for PubMed the publication date up to
  its first space, for arXiv the published date up to its first hyphen, for CrossRef
  \<^verbatim>\<open>str\<close> of the first date part, for Europe PMC \<^verbatim>\<open>str\<close> of \<^verbatim>\<open>pubYear\<close>. It is the
  4-digit year whenever the provider's date begins with one (as text followed by the
  separator, or as an integer from 1000 to 9999); it is empty when PubMed's date or
  Europe PMC's year is absent, and it is the text \<^verbatim>\<open>None\<close> when CrossRef's date is
  absent.
\<close>

theorem year_field:
  "(pubmed_record (PDict d) = Inr r \<longrightarrow>
      Year r = (case map_of d ''DP'' of Some (PStr dp) \<Rightarrow> split0 CHR '' '' dp | _ \<Rightarrow> [])) \<and>
   (arxiv_record e = Inr r \<longrightarrow>
      (\<exists>p pt. find_elem e (atom ''published'') = Some p \<and> etext p = Some pt \<and>
         Year r = split0 CHR ''-'' pt)) \<and>
   (crossref_record (PDict d) = Inr r \<longrightarrow>
      (map_of d ''issued'' = None \<longrightarrow> Year r = ''None'') \<and>
      (map_of d ''issued'' = Some (PDict i) \<and>
       map_of i ''date-parts'' = Some (PList (PList (v # parts) # others)) \<longrightarrow>
         Year r = py_str v)) \<and>
   (epmc_record (PDict d) = Inr r \<longrightarrow>
      Year r = py_str (case map_of d ''pubYear'' of None \<Rightarrow> PStr [] | Some v \<Rightarrow> v)) \<and>
   (is_year4 y \<longrightarrow>
      split0 CHR '' '' y = y \<and> split0 CHR '' '' (y @ CHR '' '' # rest) = y \<and>
      split0 CHR ''-'' (y @ CHR ''-'' # rest) = y \<and> py_str (PStr y) = y) \<and>
   (1000 \<le> n \<and> n \<le> 9999 \<longrightarrow> is_year4 (py_str (PInt n)))"
proof -
  have p: "pubmed_record (PDict d) = Inr r \<longrightarrow>
      Year r = (case map_of d ''DP'' of Some (PStr dp) \<Rightarrow> split0 CHR '' '' dp | _ \<Rightarrow> [])"
    using pubmed_record_fields(4) [of d r] by blast
  have a: "arxiv_record e = Inr r \<longrightarrow>
      (\<exists>p pt. find_elem e (atom ''published'') = Some p \<and> etext p = Some pt \<and>
         Year r = split0 CHR ''-'' pt)"
    using arxiv_record_fields [of e r] by blast
  have c: "crossref_record (PDict d) = Inr r \<longrightarrow>
      (map_of d ''issued'' = None \<longrightarrow> Year r = ''None'') \<and>
      (map_of d ''issued'' = Some (PDict i) \<and>
       map_of i ''date-parts'' = Some (PList (PList (v # parts) # others)) \<longrightarrow>
         Year r = py_str v)"
    using crossref_record_fields(4,5) [of d r] by blast
  have x: "epmc_record (PDict d) = Inr r \<longrightarrow>
      Year r = py_str (case map_of d ''pubYear'' of None \<Rightarrow> PStr [] | Some v \<Rightarrow> v)"
    using epmc_record_fields(4) [of d r] by blast
  have t: "is_year4 y \<longrightarrow>
      split0 CHR '' '' y = y \<and> split0 CHR '' '' (y @ CHR '' '' # rest) = y \<and>
      split0 CHR ''-'' (y @ CHR ''-'' # rest) = y \<and> py_str (PStr y) = y"
    using year_of_text(1,4) [of y] year_of_text(2,3) [of y rest] by blast
  have n: "1000 \<le> n \<and> n \<le> 9999 \<longrightarrow> is_year4 (py_str (PInt n))"
    using year_of_int [of n] by blast
  from p a c x t n show ?thesis by blast
qed

theorem year_field_witness:
  "is_year4 ''2021'' \<and> py_str (PInt 2021) = ''2021'' \<and> is_year4 (py_str (PInt 2021)) \<and>
   split0 CHR '' '' ''2021 Jan 5'' = ''2021'' \<and>
   split0 CHR ''-'' ''2021-01-01T00:00:00Z'' = ''2021'' \<and>
   crossref_record item1 = Inr item_record1 \<and> Year item_record1 = ''2021'' \<and>
   arxiv_record entry1 = Inr record1 \<and> Year record1 = ''2021''"
proof -
  have y: "is_year4 ''2021''"
    by (simp add: is_year4_def is_digit_def)
  have s: "py_str (PInt 2021) = ''2021''"
    by (simp add: py_str_def str_int_2021)
  from year_field [where n = 2021 and y = "''2021''" and rest = "''Jan 5''"] y
  have a: "is_year4 (py_str (PInt 2021))" "split0 CHR '' '' ''2021 Jan 5'' = ''2021''"
    by simp_all
  from year_field [where y = "''2021''" and rest = "''01-01T00:00:00Z''"] y
  have b: "split0 CHR ''-'' ''2021-01-01T00:00:00Z'' = ''2021''"
    by simp
  from y s a b crossref_record_item1 arxiv_record_entry1 show ?thesis
    by (simp add: item_record1_def record1_def)
qed

text \<open>
  C5 as stated fails: for a CrossRef item whose date is unknown, which CrossRef writes
  as the date parts \<^verbatim>\<open>[[null]]\<close>, the year is the text \<^verbatim>\<open>None\<close>, neither a
  4-digit year nor empty.
\<close>

theorem crossref_unknown_year:
  "crossref_record
     (PDict [(''title'', PList [PStr ''Twins'']),
             (''issued'', PDict [(''date-parts'', PList [PList [PNone]])])]) =
     Inr \<lparr>Source = ''CrossRef'', Title = ''Twins'', Authors = [], Year = ''None'',
          Abstract = PStr [], DOI = PStr [], URL = PStr []\<rparr> \<and>
   \<not> year_ok ''None''"
proof -
  have a: "crossref_record
     (PDict [(''title'', PList [PStr ''Twins'']),
             (''issued'', PDict [(''date-parts'', PList [PList [PNone]])])]) =
     Inr \<lparr>Source = ''CrossRef'', Title = ''Twins'', Authors = [], Year = ''None'',
          Abstract = PStr [], DOI = PStr [], URL = PStr []\<rparr>"
    by (simp add: crossref_record_def py_get_def py_index0_def py_strip_def strip_def is_space_def
        py_iter_def py_str_def)
  have b: "\<not> year_ok ''None''"
    by (simp add: year_ok_def is_year4_def is_digit_def)
  from a b show ?thesis by simp
qed

section \<open>The CSV file\<close>

lemma line_count_append [simp]: "line_count (a @ b) = line_count a + line_count b"
  by (simp add: line_count_def)

lemma line_count_Nil [simp]: "line_count [] = 0"
  by (simp add: line_count_def)














end
